theory Spec2Isabelle
  imports Complex_Main
begin

section \<open>JavaScript values as the handlers see them\<close>

text \<open>
  The request bodies of \<^verbatim>\<open>server.js\<close> are parsed JSON and are not typed: a field such as
  \<^verbatim>\<open>userId\<close> can be absent (\<^verbatim>\<open>undefined\<close>), \<^verbatim>\<open>null\<close>, a boolean, a number, a
  string, an array or an object.  The handlers only test such a value for truthiness
  (\<^verbatim>\<open>!v\<close>, \<^verbatim>\<open>a || b\<close>) and compare it with \<^verbatim>\<open>===\<close>, \<^verbatim>\<open>!==\<close> and
  \<^verbatim>\<open>Array.prototype.includes\<close>; they never look inside an array or an object, which is
  therefore carried as its JSON text.  A number is a finite double, a rational here: JSON
  text cannot denote \<^verbatim>\<open>NaN\<close>, and \<^verbatim>\<open>-0\<close> is identified with \<^verbatim>\<open>0\<close>, as
  \<^verbatim>\<open>===\<close> does.  A literal too large for a double, which parses to
  \<^verbatim>\<open>Infinity\<close>, is left out.
\<close>

datatype jsval =
    JUndefined
  | JNull
  | JBool bool
  | JNum rat
  | JStr string
  | JArray string
  | JObject string

text \<open>\<^verbatim>\<open>!v\<close>: the falsy values are undefined, null, false, 0 and the empty string.\<close>

fun falsy :: "jsval \<Rightarrow> bool" where
  "falsy JUndefined = True"
| "falsy JNull = True"
| "falsy (JBool b) = (b = False)"
| "falsy (JNum n) = (n = 0)"
| "falsy (JStr s) = (s = [])"
| "falsy (JArray a) = False"
| "falsy (JObject obj) = False"

text \<open>\<^verbatim>\<open>a || b\<close>\<close>

definition js_or :: "jsval \<Rightarrow> jsval \<Rightarrow> jsval" where
  "js_or a b = (if falsy a then b else a)"

text \<open>
  \<^verbatim>\<open>a === b\<close> for a value \<open>a\<close> read from a collection file and a value \<open>b\<close> taken from
  the request: every comparison of the program is of this kind.  Primitive values are
  equal when they are the same value; an array or an object is equal only to itself, and a
  value parsed from the file is never the same object as one parsed from the request.
\<close>

fun strict_eq :: "jsval \<Rightarrow> jsval \<Rightarrow> bool" where
  "strict_eq (JArray a) b = False"
| "strict_eq (JObject obj) b = False"
| "strict_eq a b = (a = b)"

text \<open>
  \<^verbatim>\<open>xs.includes(v)\<close> compares with SameValueZero, which differs from \<^verbatim>\<open>===\<close> on
  \<^verbatim>\<open>NaN\<close> only.
\<close>

definition js_includes :: "jsval list \<Rightarrow> jsval \<Rightarrow> bool" where
  "js_includes xs v = list_ex (\<lambda>x. strict_eq x v) xs"

text \<open>
  \<^verbatim>\<open>s.trim()\<close> removes white space and line terminators from both ends.  Of the code
  points JavaScript counts as such, those below 256 are listed.
\<close>

definition white_space :: "char \<Rightarrow> bool" where
  "white_space c = (c \<in> set [CHR 0x09, CHR 0x0A, CHR 0x0B, CHR 0x0C, CHR 0x0D, CHR 0x20, CHR 0xA0])"

definition trim :: "string \<Rightarrow> string" where
  "trim s = rev (dropWhile white_space (rev (dropWhile white_space s)))"

section \<open>Records of the two collections\<close>

record user =
  user_id :: string
  user_name :: string
  passwordHash :: string

record comment =
  comment_id :: string
  comment_userId :: jsval
  comment_user :: jsval
  comment_text :: jsval
  comment_timestamp :: string

text \<open>
  A post as \<^verbatim>\<open>app.post('/api/posts')\<close> builds it.  The three arrays are optional: the
  handlers replace a missing one by \<^verbatim>\<open>[]\<close> before they use it
  (\<^verbatim>\<open>if (!post.likedBy) post.likedBy = []\<close>).
\<close>

record post =
  post_id :: string
  userId :: jsval
  username :: jsval
  content :: jsval
  image :: jsval
  video :: jsval
  timestamp :: string
  likedBy :: "jsval list option"
  dislikedBy :: "jsval list option"
  comments :: "comment list option"

definition arr :: "'a list option \<Rightarrow> 'a list" where
  "arr a = (case a of None \<Rightarrow> [] | Some xs \<Rightarrow> xs)"

section \<open>Replies\<close>

datatype body =
    Message string
  | UserBody string string string
  | PostBody post

text \<open>
  A handler either sends a status code with a JSON body, or throws a \<^verbatim>\<open>TypeError\<close>
  outside every \<^verbatim>\<open>try\<close> block: the promise of the \<^verbatim>\<open>async\<close> handler is then
  rejected and the handler sends nothing.
\<close>

datatype reply = Reply nat body | Unhandled

section \<open>File reading and writing helpers\<close>

text \<open>
  The state of a collection file as \<^verbatim>\<open>fs.readFile\<close> and \<^verbatim>\<open>JSON.parse\<close> find it: no
  such file, a file that cannot be read, text that is not JSON, or text that parses to a
  document.  A document is an array of records or some other JSON value.
\<close>

datatype 'a document = Seq "'a list" | NonSeq jsval

datatype 'a resource = NoEntry | ReadError | Unparsable | Parsed "'a document"

datatype failure = ENOENT | EOTHER | SyntaxError

text \<open>The \<^verbatim>\<open>try\<close> block: \<^verbatim>\<open>JSON.parse(await fs.readFile(FILE, 'utf8'))\<close>.\<close>

fun read_and_parse :: "'a resource \<Rightarrow> failure + 'a document" where
  "read_and_parse NoEntry = Inl ENOENT"
| "read_and_parse ReadError = Inl EOTHER"
| "read_and_parse Unparsable = Inl SyntaxError"
| "read_and_parse (Parsed d) = Inr d"

definition readPosts :: "post resource \<Rightarrow> post document" where
  "readPosts file =
     (case read_and_parse file of
        Inr d \<Rightarrow> d
      | Inl error \<Rightarrow> (if error = ENOENT then Seq [] else Seq []))"

definition readUsers :: "user resource \<Rightarrow> user document" where
  "readUsers file =
     (case read_and_parse file of
        Inr d \<Rightarrow> d
      | Inl error \<Rightarrow> (if error = ENOENT then Seq [] else Seq []))"

fun is_sequence :: "'a document \<Rightarrow> bool" where
  "is_sequence (Seq xs) = True"
| "is_sequence (NonSeq v) = False"

text \<open>
  \<^verbatim>\<open>JSON.stringify\<close> writes an \<^verbatim>\<open>undefined\<close> element of an array as \<^verbatim>\<open>null\<close>.
  The only arrays of a post that can hold one are \<^verbatim>\<open>likedBy\<close> and \<^verbatim>\<open>dislikedBy\<close>,
  to which the handlers push the \<^verbatim>\<open>userId\<close> of the request as it is.
\<close>

definition json_element :: "jsval \<Rightarrow> jsval" where
  "json_element v = (if v = JUndefined then JNull else v)"

definition json_post :: "post \<Rightarrow> post" where
  "json_post p = p\<lparr>likedBy := map_option (map json_element) (likedBy p),
                   dislikedBy := map_option (map json_element) (dislikedBy p)\<rparr>"

text \<open>\<^verbatim>\<open>JSON.parse(JSON.stringify(posts, null, 2))\<close>: what a file written from \<open>posts\<close> parses to.\<close>

definition stringify_parse :: "post list \<Rightarrow> post list" where
  "stringify_parse posts = map json_post posts"

text \<open>
  \<open>writePosts writable file posts\<close> is the content of the posts file after
  \<^verbatim>\<open>writePosts(posts)\<close>, as the next \<open>readPosts\<close> parses it, where \<open>file\<close> is the
  content before.  \<open>writable\<close> tells whether \<^verbatim>\<open>fs.writeFile\<close> succeeds; when it fails
  the error is caught and logged, nothing is thrown and the file is as before.
\<close>

definition writePosts :: "bool \<Rightarrow> post list \<Rightarrow> post list \<Rightarrow> post list" where
  "writePosts writable file posts = (if writable then stringify_parse posts else file)"

text \<open>
  A handler returns its reply and, when it called \<^verbatim>\<open>writePosts\<close>, the array it passed.
  \<open>commit\<close> gives the content of the posts file after the request.
\<close>

definition commit :: "bool \<Rightarrow> post list \<Rightarrow> reply \<times> post list option \<Rightarrow> post list" where
  "commit writable file r =
     (case snd r of None \<Rightarrow> file | Some posts \<Rightarrow> writePosts writable file posts)"

section \<open>Signup and login\<close>

text \<open>
  \<^verbatim>\<open>!v || v.trim() === ''\<close>.  A truthy value that is not a string has no \<^verbatim>\<open>trim\<close>
  method, and calling it throws a \<^verbatim>\<open>TypeError\<close>: the result \<open>None\<close>.
\<close>

fun empty_field :: "jsval \<Rightarrow> bool option" where
  "empty_field (JStr s) = (if s = [] then Some True else Some (trim s = []))"
| "empty_field v = (if falsy v then Some True else None)"

text \<open>
  \<^verbatim>\<open>!username || username.trim() === '' || !password || password.trim() === ''\<close>,
  evaluated from left to right.  \<open>Inr\<close> carries the two strings when the test is false.
\<close>

definition credentials :: "jsval \<Rightarrow> jsval \<Rightarrow> reply + string \<times> string" where
  "credentials uname pword =
     (case empty_field uname of
        None \<Rightarrow> Inl Unhandled
      | Some True \<Rightarrow> Inl (Reply 400 (Message ''Username and password cannot be empty.''))
      | Some False \<Rightarrow>
          (case empty_field pword of
             None \<Rightarrow> Inl Unhandled
           | Some True \<Rightarrow> Inl (Reply 400 (Message ''Username and password cannot be empty.''))
           | Some False \<Rightarrow>
               (case (uname, pword) of
                  (JStr name, JStr pw) \<Rightarrow> Inr (name, pw)
                | _ \<Rightarrow> Inl Unhandled)))"

text \<open>
  \<^verbatim>\<open>app.post('/api/signup')\<close>.  \<open>bcrypt_hash\<close> is \<^verbatim>\<open>bcrypt.hash(password, 10)\<close>, with
  \<open>None\<close> when it throws; \<open>uuid\<close> is what \<^verbatim>\<open>uuidv4()\<close> returns in this request.
  The second component of the result is the array passed to \<^verbatim>\<open>writeUsers\<close>, if it is
  called; a user record holds three strings, which JSON writes and reads back unchanged.
\<close>

definition signup ::
  "(string \<Rightarrow> string option) \<Rightarrow> string \<Rightarrow> user list \<Rightarrow> jsval \<Rightarrow> jsval \<Rightarrow> reply \<times> user list option" where
  "signup bcrypt_hash uuid users uname pword =
     (case credentials uname pword of
        Inl r \<Rightarrow> (r, None)
      | Inr (name, pw) \<Rightarrow>
          if list_ex (\<lambda>user. user_name user = name) users
          then (Reply 409 (Message ''Username already exists. Please choose a different one or log in.''), None)
          else
            (case bcrypt_hash pw of
               None \<Rightarrow> (Reply 500 (Message ''Server error during registration.''), None)
             | Some hashedPassword \<Rightarrow>
                 let newUser = \<lparr>user_id = uuid, user_name = name, passwordHash = hashedPassword\<rparr>
                 in (Reply 201 (UserBody (user_id newUser) (user_name newUser) ''User registered successfully!''),
                     Some (users @ [newUser]))))"

text \<open>
  \<^verbatim>\<open>app.post('/api/login')\<close>.  \<open>bcrypt_compare\<close> is \<^verbatim>\<open>bcrypt.compare\<close>, with \<open>None\<close>
  when it throws.
\<close>

definition login ::
  "(string \<Rightarrow> string \<Rightarrow> bool option) \<Rightarrow> user list \<Rightarrow> jsval \<Rightarrow> jsval \<Rightarrow> reply" where
  "login bcrypt_compare users uname pword =
     (case credentials uname pword of
        Inl r \<Rightarrow> r
      | Inr (name, pw) \<Rightarrow>
          (case find (\<lambda>u. user_name u = name) users of
             None \<Rightarrow> Reply 401 (Message ''Invalid username or password.'')
           | Some user \<Rightarrow>
               (case bcrypt_compare pw (passwordHash user) of
                  None \<Rightarrow> Reply 500 (Message ''Server error during login.'')
                | Some isMatch \<Rightarrow>
                    if isMatch
                    then Reply 200 (UserBody (user_id user) (user_name user) ''Logged in successfully!'')
                    else Reply 401 (Message ''Invalid username or password.''))))"

section \<open>Posts\<close>

text \<open>
  \<^verbatim>\<open>app.post('/api/posts')\<close>.  \<open>uuid\<close> is the result of \<^verbatim>\<open>uuidv4()\<close> and \<open>now\<close> that
  of \<^verbatim>\<open>new Date().toISOString()\<close>.
\<close>

definition createPost ::
  "string \<Rightarrow> string \<Rightarrow> post list \<Rightarrow> jsval \<Rightarrow> jsval \<Rightarrow> jsval \<Rightarrow> jsval \<Rightarrow> jsval \<Rightarrow> reply \<times> post list option" where
  "createPost uuid now posts uId uname ctent img vid =
     (if falsy uId \<or> falsy uname \<or> (falsy ctent \<and> falsy img \<and> falsy vid)
      then (Reply 400 (Message ''Missing required post data or user not authenticated.''), None)
      else
        let newPost = \<lparr>post_id = uuid, userId = uId, username = uname,
                       content = js_or ctent (JStr []), image = js_or img JNull,
                       video = js_or vid JNull, timestamp = now,
                       likedBy = Some [], dislikedBy = Some [], comments = Some []\<rparr>
        in (Reply 201 (PostBody newPost), Some (posts @ [newPost])))"

text \<open>\<^verbatim>\<open>app.delete('/api/posts/:id')\<close>\<close>

definition deletePost :: "post list \<Rightarrow> string \<Rightarrow> jsval \<Rightarrow> reply \<times> post list option" where
  "deletePost posts postId uId =
     (let initialLength = length posts;
          posts' = filter (\<lambda>p. \<not> (post_id p = postId \<and> strict_eq (userId p) uId)) posts
      in if length posts' < initialLength
         then (Reply 200 (Message ''Post deleted successfully.''), Some posts')
         else (Reply 403 (Message ''Post not found or you are not authorized to delete this post.''), None))"

text \<open>\<^verbatim>\<open>app.post('/api/posts/clear_mine')\<close>\<close>

definition clear_mine :: "post list \<Rightarrow> jsval \<Rightarrow> reply \<times> post list option" where
  "clear_mine posts uId =
     (let initialLength = length posts;
          posts' = filter (\<lambda>p. \<not> strict_eq (userId p) uId) posts
      in if length posts' < initialLength
         then (Reply 200 (Message ''Your posts cleared successfully.''), Some posts')
         else (Reply 404 (Message ''No posts found for this user.''), None))"

text \<open>\<^verbatim>\<open>posts.findIndex(p => p.id === postId)\<close>, with \<open>None\<close> for \<^verbatim>\<open>-1\<close>.\<close>

fun findIndex :: "post list \<Rightarrow> string \<Rightarrow> nat option" where
  "findIndex [] postId = None"
| "findIndex (p # ps) postId =
     (if post_id p = postId then Some 0 else map_option Suc (findIndex ps postId))"

text \<open>\<^verbatim>\<open>app.post('/api/posts/:id/like')\<close>\<close>

definition toggleLike :: "post list \<Rightarrow> string \<Rightarrow> jsval \<Rightarrow> reply \<times> post list option" where
  "toggleLike posts postId uId =
     (case findIndex posts postId of
        None \<Rightarrow> (Reply 404 (Message ''Post not found.''), None)
      | Some postIndex \<Rightarrow>
          let post = posts ! postIndex;
              liked = arr (likedBy post);
              disliked = arr (dislikedBy post)
          in if js_includes disliked uId
             then (Reply 400 (Message ''Remove your dislike first.''), None)
             else
               let liked' = (if js_includes liked uId
                             then filter (\<lambda>i. \<not> strict_eq i uId) liked
                             else liked @ [uId])
               in (Reply 200 (Message ''Like status updated.''),
                   Some (posts[postIndex := post\<lparr>likedBy := Some liked', dislikedBy := Some disliked\<rparr>])))"

text \<open>\<^verbatim>\<open>app.post('/api/posts/:id/dislike')\<close>\<close>

definition toggleDislike :: "post list \<Rightarrow> string \<Rightarrow> jsval \<Rightarrow> reply \<times> post list option" where
  "toggleDislike posts postId uId =
     (case findIndex posts postId of
        None \<Rightarrow> (Reply 404 (Message ''Post not found.''), None)
      | Some postIndex \<Rightarrow>
          let post = posts ! postIndex;
              liked = arr (likedBy post);
              disliked = arr (dislikedBy post)
          in if js_includes liked uId
             then (Reply 400 (Message ''Please remove your like first.''), None)
             else
               let disliked' = (if js_includes disliked uId
                                then filter (\<lambda>i. \<not> strict_eq i uId) disliked
                                else disliked @ [uId])
               in (Reply 200 (Message ''Dislike status updated.''),
                   Some (posts[postIndex := post\<lparr>likedBy := Some liked, dislikedBy := Some disliked'\<rparr>])))"

text \<open>\<^verbatim>\<open>app.post('/api/posts/:id/comment')\<close>\<close>

definition addComment ::
  "string \<Rightarrow> string \<Rightarrow> post list \<Rightarrow> string \<Rightarrow> jsval \<Rightarrow> jsval \<Rightarrow> jsval \<Rightarrow> reply \<times> post list option" where
  "addComment uuid now posts postId uId uname txt =
     (case findIndex posts postId of
        None \<Rightarrow> (Reply 404 (Message ''Post not found.''), None)
      | Some postIndex \<Rightarrow>
          if falsy uId \<or> falsy uname \<or> falsy txt
          then (Reply 400 (Message ''Missing comment data or user not authenticated.''), None)
          else
            let post = posts ! postIndex;
                newComment = \<lparr>comment_id = uuid, comment_userId = uId, comment_user = uname,
                              comment_text = txt, comment_timestamp = now\<rparr>
            in (Reply 201 (Message ''Comment added successfully.''),
                Some (posts[postIndex := post\<lparr>comments := Some (arr (comments post) @ [newComment])\<rparr>])))"

section \<open>The reaction invariant\<close>

text \<open>
  Membership is what the handlers test: \<^verbatim>\<open>includes\<close>.  A post keeps the invariant when
  no element of its \<^verbatim>\<open>likedBy\<close> is included in its \<^verbatim>\<open>dislikedBy\<close>.
\<close>

definition exclusive :: "post \<Rightarrow> bool" where
  "exclusive p = (list_ex (js_includes (arr (dislikedBy p))) (arr (likedBy p)) = False)"

definition all_exclusive :: "post list \<Rightarrow> bool" where
  "all_exclusive posts = list_all exclusive posts"

text \<open>
  An array that \<^verbatim>\<open>JSON.parse\<close> returns holds no \<^verbatim>\<open>undefined\<close> element, so the
  arrays of every post that \<open>readPosts\<close> returns are of this kind.
\<close>

definition json_array :: "jsval list \<Rightarrow> bool" where
  "json_array xs = (list_ex (\<lambda>x. x = JUndefined) xs = False)"

definition json_arrays :: "post \<Rightarrow> bool" where
  "json_arrays p = (json_array (arr (likedBy p)) \<and> json_array (arr (dislikedBy p)))"

definition parsed_posts :: "post list \<Rightarrow> bool" where
  "parsed_posts posts = list_all json_arrays posts"

text \<open>
  The values of a request that a later request can match with \<^verbatim>\<open>===\<close> once they are
  stored: null, booleans, numbers and strings.
\<close>

fun plain_id :: "jsval \<Rightarrow> bool" where
  "plain_id JNull = True"
| "plain_id (JBool b) = True"
| "plain_id (JNum n) = True"
| "plain_id (JStr s) = True"
| "plain_id v = False"

fun holds_non_array :: "'a resource \<Rightarrow> bool" where
  "holds_non_array (Parsed (NonSeq v)) = True"
| "holds_non_array file = False"

section \<open>Sample data\<close>

definition demo_post :: post where
  "demo_post = \<lparr>post_id = ''p1'', userId = JStr ''u1'', username = JStr ''alice'',
                 content = JStr ''hi'', image = JNull, video = JNull,
                 timestamp = ''2024-01-01T00:00:00.000Z'',
                 likedBy = Some [], dislikedBy = Some [], comments = Some []\<rparr>"

definition other_post :: post where
  "other_post = demo_post\<lparr>post_id := ''p2'', userId := JStr ''u2'', username := JStr ''bob''\<rparr>"

definition liked_post :: post where
  "liked_post = demo_post\<lparr>likedBy := Some [JStr ''u2'']\<rparr>"

definition disliked_post :: post where
  "disliked_post = demo_post\<lparr>dislikedBy := Some [JStr ''u2'']\<rparr>"

definition demo_hash :: "string \<Rightarrow> string option" where
  "demo_hash pw = Some (''hash:'' @ pw)"

definition demo_compare :: "string \<Rightarrow> string \<Rightarrow> bool option" where
  "demo_compare pw h = Some (h = ''hash:'' @ pw)"

definition demo_user :: user where
  "demo_user = \<lparr>user_id = ''id-1'', user_name = ''alice'', passwordHash = ''hash:pw1''\<rparr>"

definition other_user :: user where
  "other_user = \<lparr>user_id = ''id-0'', user_name = ''bob'', passwordHash = ''hash:pw0''\<rparr>"

text \<open>
  Three requests on an empty posts file, each written with success: a post is created,
  then disliked and then liked, both times by a request whose body has no \<^verbatim>\<open>userId\<close>.
\<close>

definition file_created :: "post list" where
  "file_created =
     commit True [] (createPost ''p1'' ''2024-01-01T00:00:00.000Z'' []
                  (JStr ''u1'') (JStr ''alice'') (JStr ''hi'') JUndefined JUndefined)"

definition file_disliked :: "post list" where
  "file_disliked = commit True file_created (toggleDislike file_created ''p1'' JUndefined)"

definition file_disliked_liked :: "post list" where
  "file_disliked_liked = commit True file_disliked (toggleLike file_disliked ''p1'' JUndefined)"

text \<open>The created post liked twice, and disliked twice, without \<^verbatim>\<open>userId\<close>.\<close>

definition file_liked :: "post list" where
  "file_liked = commit True file_created (toggleLike file_created ''p1'' JUndefined)"

definition file_liked_twice :: "post list" where
  "file_liked_twice = commit True file_liked (toggleLike file_liked ''p1'' JUndefined)"

definition file_disliked_twice :: "post list" where
  "file_disliked_twice = commit True file_disliked (toggleDislike file_disliked ''p1'' JUndefined)"

section \<open>Lists, lookup and the JSON round trip\<close>

lemma filter_shorter_iff:
  "(length (filter P xs) < length xs) = list_ex (\<lambda>x. \<not> P x) xs"
proof (induction xs)
  case Nil
  show ?case by simp
next
  case (Cons x xs)
  have "length (filter P xs) \<le> length xs" by simp
  with Cons show ?case by (auto simp: less_Suc_eq_le)
qed

lemma filter_unchanged:
  "list_ex (\<lambda>x. \<not> P x) xs = False \<Longrightarrow> filter P xs = xs"
  by (induction xs) auto

lemma findIndex_Some:
  "findIndex posts postId = Some i \<Longrightarrow> i < length posts \<and> post_id (posts ! i) = postId"
proof (induction posts arbitrary: i)
  case Nil
  then show ?case by simp
next
  case (Cons p ps)
  then show ?case by (auto split: if_splits)
qed

lemma findIndex_update:
  "i < length posts \<Longrightarrow> post_id p' = post_id (posts ! i) \<Longrightarrow>
     findIndex (posts[i := p']) postId = findIndex posts postId"
proof (induction posts arbitrary: i)
  case Nil
  then show ?case by simp
next
  case (Cons p ps)
  then show ?case by (cases i) auto
qed

text \<open>
  The lookup finds a post exactly when it is the first of the collection with the requested
  id; with ids that are all different, as \<^verbatim>\<open>uuidv4()\<close> gives them, every post is the
  first with its id.
\<close>

lemma findIndex_first:
  "i < length posts \<Longrightarrow> post_id (posts ! i) = postId \<Longrightarrow>
     \<forall>j<i. post_id (posts ! j) \<noteq> postId \<Longrightarrow> findIndex posts postId = Some i"
proof (induction posts arbitrary: i)
  case Nil
  then show ?case by simp
next
  case (Cons p ps)
  show ?case
  proof (cases i)
    case 0
    with Cons.prems show ?thesis by simp
  next
    case (Suc k)
    have "post_id p \<noteq> postId" using Cons.prems(3) Suc by auto
    moreover have "findIndex ps postId = Some k"
    proof (rule Cons.IH)
      show "k < length ps" using Cons.prems(1) Suc by simp
      show "post_id (ps ! k) = postId" using Cons.prems(2) Suc by simp
      show "\<forall>j<k. post_id (ps ! j) \<noteq> postId" using Cons.prems(3) Suc by auto
    qed
    ultimately show ?thesis using Suc by simp
  qed
qed

lemma findIndex_only_first:
  "findIndex posts postId = Some i \<Longrightarrow> \<forall>j<i. post_id (posts ! j) \<noteq> postId"
proof (induction posts arbitrary: i)
  case Nil
  then show ?case by simp
next
  case (Cons p ps)
  show ?case
  proof (cases "post_id p = postId")
    case True
    with Cons.prems show ?thesis by simp
  next
    case False
    with Cons.prems obtain k where k: "findIndex ps postId = Some k" "i = Suc k" by auto
    from Cons.IH [OF k(1)] have "\<forall>j<k. post_id (ps ! j) \<noteq> postId" .
    with False k(2) show ?thesis by (auto simp: less_Suc_eq_0_disj)
  qed
qed

lemma findIndex_None:
  "(findIndex posts postId = None) = (list_ex (\<lambda>p. post_id p = postId) posts = False)"
  by (induction posts) auto

lemma distinct_ids_first:
  "distinct (map post_id posts) \<Longrightarrow> i < length posts \<Longrightarrow>
     \<forall>j<i. post_id (posts ! j) \<noteq> post_id (posts ! i)"
  by (auto simp: distinct_conv_nth)

lemma list_all_update:
  "list_all P xs \<Longrightarrow> P x \<Longrightarrow> list_all P (xs[i := x])"
  by (auto simp: list_all_iff dest: set_update_subset_insert[THEN subsetD])

lemma list_all_nth: "list_all P xs \<Longrightarrow> i < length xs \<Longrightarrow> P (xs ! i)"
  by (simp add: list_all_iff)

lemma list_all_filter: "list_all P xs \<Longrightarrow> list_all P (filter Q xs)"
  by (simp add: list_all_iff)

lemma json_element_map: "json_array xs \<Longrightarrow> map json_element xs = xs"
  by (induction xs) (auto simp: json_array_def json_element_def)

lemma json_post_ident: "json_arrays p \<Longrightarrow> json_post p = p"
  by (cases "likedBy p"; cases "dislikedBy p")
     (simp_all add: json_arrays_def json_post_def arr_def json_element_map)

lemma stringify_parse_ident: "parsed_posts posts \<Longrightarrow> stringify_parse posts = posts"
  by (induction posts) (simp_all add: parsed_posts_def stringify_parse_def json_post_ident)

lemma json_array_map: "json_array (map json_element xs)"
  by (induction xs) (auto simp: json_array_def json_element_def)

lemma stringify_parse_parsed: "parsed_posts (stringify_parse posts)"
proof -
  have "json_arrays (json_post p)" for p
    by (cases "likedBy p"; cases "dislikedBy p")
       (simp_all add: json_arrays_def json_post_def arr_def json_array_map, simp_all add: json_array_def)
  then show ?thesis
    by (simp add: parsed_posts_def stringify_parse_def list_all_iff)
qed

lemma json_array_filter: "json_array xs \<Longrightarrow> json_array (filter Q xs)"
  by (induction xs) (auto simp: json_array_def)

lemma json_array_snoc: "json_array xs \<Longrightarrow> v \<noteq> JUndefined \<Longrightarrow> json_array (xs @ [v])"
  by (auto simp: json_array_def)

section \<open>Strict equality and membership\<close>

lemma strict_eq_sym: "strict_eq a b \<Longrightarrow> strict_eq b a"
  by (cases a) auto

lemma strict_eq_eq: "strict_eq a b \<Longrightarrow> a = b"
  by (cases a) auto

lemma plain_id_eq: "plain_id v \<Longrightarrow> strict_eq v v"
  by (cases v) auto

lemma filter_not_included:
  "js_includes xs v = False \<Longrightarrow> filter (\<lambda>x. \<not> strict_eq x v) xs = xs"
  by (induction xs) (auto simp: js_includes_def)

text \<open>
  The invariant of a post says that no value is found by \<^verbatim>\<open>includes\<close> in both of its
  arrays.
\<close>

lemma exclusive_iff:
  "exclusive p = (\<forall>v. \<not> (js_includes (arr (likedBy p)) v \<and> js_includes (arr (dislikedBy p)) v))"
proof -
  have "(list_ex (js_includes ds) ls = False) = (\<forall>v. \<not> (js_includes ls v \<and> js_includes ds v))" for ds ls
    apply (auto simp: js_includes_def list_ex_iff)
     apply (metis strict_eq_eq)
    by (metis strict_eq_eq strict_eq_sym)
  then show ?thesis by (simp add: exclusive_def)
qed

lemma exclusive_filter:
  "list_ex (js_includes ds) xs = False \<Longrightarrow> list_ex (js_includes ds) (filter Q xs) = False"
  by (induction xs) auto

lemma exclusive_snoc_disliked:
  assumes "list_ex (js_includes ds) ls = False" and "js_includes ls v = False"
  shows "list_ex (js_includes (ds @ [v])) ls = False"
  using assms
  by (induction ls) (auto simp: js_includes_def dest: strict_eq_sym strict_eq_eq)

lemma exclusive_filter_disliked:
  assumes "list_ex (js_includes ds) ls = False"
  shows "list_ex (js_includes (filter Q ds)) ls = False"
  using assms
  by (induction ls) (auto simp: js_includes_def list_ex_iff)

section \<open>Credentials\<close>

lemma trim_nonempty: "trim s \<noteq> [] \<Longrightarrow> s \<noteq> []"
  by (auto simp: trim_def)

lemma credentials_strings:
  "trim name \<noteq> [] \<Longrightarrow> trim pw \<noteq> [] \<Longrightarrow> credentials (JStr name) (JStr pw) = Inr (name, pw)"
  by (auto simp: credentials_def dest: trim_nonempty)

lemma find_appended:
  "list_ex P xs = False \<Longrightarrow> find P (xs @ [y]) = (if P y then Some y else None)"
  by (induction xs) auto

section \<open>What each request keeps\<close>

text \<open>
  The invariant, together with the shape of a parsed file, is kept by a like request whose
  \<^verbatim>\<open>userId\<close> is present, whatever its value.
\<close>

lemma toggleLike_preserves:
  assumes ex: "all_exclusive posts" and js: "parsed_posts posts" and u: "uId \<noteq> JUndefined"
  shows "all_exclusive (commit writable posts (toggleLike posts postId uId))
       \<and> parsed_posts (commit writable posts (toggleLike posts postId uId))"
proof (cases "findIndex posts postId")
  case None
  then show ?thesis using ex js by (simp add: toggleLike_def commit_def)
next
  case (Some i)
  let ?p = "posts ! i"
  let ?l = "arr (likedBy ?p)" and ?d = "arr (dislikedBy ?p)"
  have i: "i < length posts" using Some findIndex_Some by blast
  have pe: "exclusive ?p" using ex i by (simp add: all_exclusive_def list_all_nth)
  have pj: "json_arrays ?p" using js i by (simp add: parsed_posts_def list_all_nth)
  show ?thesis
  proof (cases "js_includes ?d uId")
    case True
    then show ?thesis using Some ex js by (simp add: toggleLike_def commit_def Let_def)
  next
    case nd: False
    let ?l' = "if js_includes ?l uId then filter (\<lambda>x. \<not> strict_eq x uId) ?l else ?l @ [uId]"
    let ?p' = "?p\<lparr>likedBy := Some ?l', dislikedBy := Some ?d\<rparr>"
    have w: "toggleLike posts postId uId
               = (Reply 200 (Message ''Like status updated.''), Some (posts[i := ?p']))"
      using Some nd by (simp add: toggleLike_def Let_def)
    have j': "json_arrays ?p'"
      using pj u by (simp add: json_arrays_def arr_def json_array_filter json_array_snoc)
    have e': "exclusive ?p'"
      using pe nd by (simp add: exclusive_def arr_def exclusive_filter)
    have pp: "parsed_posts (posts[i := ?p'])"
      using js j' unfolding parsed_posts_def by (rule list_all_update)
    have ee: "all_exclusive (posts[i := ?p'])"
      using ex e' unfolding all_exclusive_def by (rule list_all_update)
    show ?thesis
      using pp ee ex js by (simp add: w commit_def writePosts_def stringify_parse_ident)
  qed
qed

lemma toggleDislike_preserves:
  assumes ex: "all_exclusive posts" and js: "parsed_posts posts" and u: "uId \<noteq> JUndefined"
  shows "all_exclusive (commit writable posts (toggleDislike posts postId uId))
       \<and> parsed_posts (commit writable posts (toggleDislike posts postId uId))"
proof (cases "findIndex posts postId")
  case None
  then show ?thesis using ex js by (simp add: toggleDislike_def commit_def)
next
  case (Some i)
  let ?p = "posts ! i"
  let ?l = "arr (likedBy ?p)" and ?d = "arr (dislikedBy ?p)"
  have i: "i < length posts" using Some findIndex_Some by blast
  have pe: "exclusive ?p" using ex i by (simp add: all_exclusive_def list_all_nth)
  have pj: "json_arrays ?p" using js i by (simp add: parsed_posts_def list_all_nth)
  show ?thesis
  proof (cases "js_includes ?l uId")
    case True
    then show ?thesis using Some ex js by (simp add: toggleDislike_def commit_def Let_def)
  next
    case nl: False
    let ?d' = "if js_includes ?d uId then filter (\<lambda>x. \<not> strict_eq x uId) ?d else ?d @ [uId]"
    let ?p' = "?p\<lparr>likedBy := Some ?l, dislikedBy := Some ?d'\<rparr>"
    have w: "toggleDislike posts postId uId
               = (Reply 200 (Message ''Dislike status updated.''), Some (posts[i := ?p']))"
      using Some nl by (simp add: toggleDislike_def Let_def)
    have j': "json_arrays ?p'"
      using pj u by (simp add: json_arrays_def arr_def json_array_filter json_array_snoc)
    have e': "exclusive ?p'"
      using pe nl
      by (simp add: exclusive_def arr_def exclusive_filter_disliked exclusive_snoc_disliked)
    have pp: "parsed_posts (posts[i := ?p'])"
      using js j' unfolding parsed_posts_def by (rule list_all_update)
    have ee: "all_exclusive (posts[i := ?p'])"
      using ex e' unfolding all_exclusive_def by (rule list_all_update)
    show ?thesis
      using pp ee ex js by (simp add: w commit_def writePosts_def stringify_parse_ident)
  qed
qed

lemma createPost_preserves:
  assumes ex: "all_exclusive posts" and js: "parsed_posts posts"
  shows "all_exclusive (commit writable posts (createPost uuid now posts uId uname ctent img vid))
       \<and> parsed_posts (commit writable posts (createPost uuid now posts uId uname ctent img vid))"
proof (cases "falsy uId \<or> falsy uname \<or> (falsy ctent \<and> falsy img \<and> falsy vid)")
  case True
  then show ?thesis using ex js by (simp add: createPost_def commit_def)
next
  case False
  let ?n = "\<lparr>post_id = uuid, userId = uId, username = uname,
             content = js_or ctent (JStr []), image = js_or img JNull,
             video = js_or vid JNull, timestamp = now,
             likedBy = Some [], dislikedBy = Some [], comments = Some []\<rparr>"
  have w: "createPost uuid now posts uId uname ctent img vid
             = (Reply 201 (PostBody ?n), Some (posts @ [?n]))"
    using False by (simp add: createPost_def Let_def)
  have pp: "parsed_posts (posts @ [?n])"
    using js by (simp add: parsed_posts_def json_arrays_def json_array_def arr_def)
  have ee: "all_exclusive (posts @ [?n])"
    using ex by (simp add: all_exclusive_def exclusive_def arr_def)
  show ?thesis using pp ee ex js by (simp add: w commit_def writePosts_def stringify_parse_ident)
qed

lemma addComment_preserves:
  assumes ex: "all_exclusive posts" and js: "parsed_posts posts"
  shows "all_exclusive (commit writable posts (addComment uuid now posts postId uId uname txt))
       \<and> parsed_posts (commit writable posts (addComment uuid now posts postId uId uname txt))"
proof (cases "findIndex posts postId")
  case None
  then show ?thesis using ex js by (simp add: addComment_def commit_def)
next
  case (Some i)
  let ?p = "posts ! i"
  have i: "i < length posts" using Some findIndex_Some by blast
  have pe: "exclusive ?p" using ex i by (simp add: all_exclusive_def list_all_nth)
  have pj: "json_arrays ?p" using js i by (simp add: parsed_posts_def list_all_nth)
  show ?thesis
  proof (cases "falsy uId \<or> falsy uname \<or> falsy txt")
    case True
    then show ?thesis using Some ex js by (simp add: addComment_def commit_def)
  next
    case False
    let ?p' = "?p\<lparr>comments := Some (arr (comments ?p) @
                 [\<lparr>comment_id = uuid, comment_userId = uId, comment_user = uname,
                   comment_text = txt, comment_timestamp = now\<rparr>])\<rparr>"
    have w: "addComment uuid now posts postId uId uname txt
               = (Reply 201 (Message ''Comment added successfully.''), Some (posts[i := ?p']))"
      using Some False by (simp add: addComment_def Let_def)
    have j': "json_arrays ?p'" using pj by (simp add: json_arrays_def)
    have e': "exclusive ?p'" using pe by (simp add: exclusive_def)
    have pp: "parsed_posts (posts[i := ?p'])"
      using js j' unfolding parsed_posts_def by (rule list_all_update)
    have ee: "all_exclusive (posts[i := ?p'])"
      using ex e' unfolding all_exclusive_def by (rule list_all_update)
    show ?thesis using pp ee ex js by (simp add: w commit_def writePosts_def stringify_parse_ident)
  qed
qed

lemma deletePost_preserves:
  assumes ex: "all_exclusive posts" and js: "parsed_posts posts"
  shows "all_exclusive (commit writable posts (deletePost posts postId uId))
       \<and> parsed_posts (commit writable posts (deletePost posts postId uId))"
  using ex js
  by (simp add: deletePost_def Let_def commit_def all_exclusive_def parsed_posts_def
                list_all_filter writePosts_def stringify_parse_ident)

lemma clear_mine_preserves:
  assumes ex: "all_exclusive posts" and js: "parsed_posts posts"
  shows "all_exclusive (commit writable posts (clear_mine posts uId))
       \<and> parsed_posts (commit writable posts (clear_mine posts uId))"
  using ex js
  by (simp add: clear_mine_def Let_def commit_def all_exclusive_def parsed_posts_def
                list_all_filter writePosts_def stringify_parse_ident)

text \<open>
  Two like requests, or two dislike requests, with the same null, boolean, number or string
  as \<^verbatim>\<open>userId\<close> put the two arrays of the post back.
\<close>

lemma toggleLike_twice_plain_id:
  assumes f: "findIndex posts postId = Some i" and js: "parsed_posts posts"
    and nl: "\<not> js_includes (arr (likedBy (posts ! i))) uId"
    and nd: "\<not> js_includes (arr (dislikedBy (posts ! i))) uId"
    and u: "plain_id uId"
  shows "commit True (commit True posts (toggleLike posts postId uId))
                (toggleLike (commit True posts (toggleLike posts postId uId)) postId uId)
           = posts[i := (posts ! i)\<lparr>likedBy := Some (arr (likedBy (posts ! i))),
                                     dislikedBy := Some (arr (dislikedBy (posts ! i)))\<rparr>]"
proof -
  let ?p = "posts ! i"
  let ?l = "arr (likedBy ?p)" and ?d = "arr (dislikedBy ?p)"
  let ?p1 = "?p\<lparr>likedBy := Some (?l @ [uId]), dislikedBy := Some ?d\<rparr>"
  let ?p2 = "?p\<lparr>likedBy := Some ?l, dislikedBy := Some ?d\<rparr>"
  have i: "i < length posts" using f findIndex_Some by blast
  have pj: "json_arrays ?p" using js i by (simp add: parsed_posts_def list_all_nth)
  have un: "uId \<noteq> JUndefined" using u by auto
  have w1: "toggleLike posts postId uId
              = (Reply 200 (Message ''Like status updated.''), Some (posts[i := ?p1]))"
    using f nl nd by (simp add: toggleLike_def Let_def)
  have j1: "json_arrays ?p1"
    using pj un by (simp add: json_arrays_def arr_def json_array_snoc)
  have pp1: "parsed_posts (posts[i := ?p1])"
    using js j1 unfolding parsed_posts_def by (rule list_all_update)
  have c1: "commit True posts (toggleLike posts postId uId) = posts[i := ?p1]"
    using pp1 by (simp add: w1 commit_def writePosts_def stringify_parse_ident)
  have f1: "findIndex (posts[i := ?p1]) postId = Some i"
    using i f by (simp add: findIndex_update)
  have inc: "js_includes (?l @ [uId]) uId"
    using u by (simp add: js_includes_def plain_id_eq)
  have flt: "filter (\<lambda>x. \<not> strict_eq x uId) (?l @ [uId]) = ?l"
    using nl u by (simp add: filter_not_included plain_id_eq)
  have w2: "toggleLike (posts[i := ?p1]) postId uId
              = (Reply 200 (Message ''Like status updated.''), Some (posts[i := ?p2]))"
    using f1 i nd inc flt by (simp add: toggleLike_def Let_def arr_def)
  have j2: "json_arrays ?p2"
    using pj by (simp add: json_arrays_def arr_def)
  have pp2: "parsed_posts (posts[i := ?p2])"
    using js j2 unfolding parsed_posts_def by (rule list_all_update)
  have c2: "commit True (posts[i := ?p1]) (toggleLike (posts[i := ?p1]) postId uId) = posts[i := ?p2]"
    using pp2 by (simp add: w2 commit_def writePosts_def stringify_parse_ident)
  show ?thesis
    unfolding c1 by (rule c2)
qed

lemma toggleDislike_twice_plain_id:
  assumes f: "findIndex posts postId = Some i" and js: "parsed_posts posts"
    and nl: "\<not> js_includes (arr (likedBy (posts ! i))) uId"
    and nd: "\<not> js_includes (arr (dislikedBy (posts ! i))) uId"
    and u: "plain_id uId"
  shows "commit True (commit True posts (toggleDislike posts postId uId))
                (toggleDislike (commit True posts (toggleDislike posts postId uId)) postId uId)
           = posts[i := (posts ! i)\<lparr>likedBy := Some (arr (likedBy (posts ! i))),
                                     dislikedBy := Some (arr (dislikedBy (posts ! i)))\<rparr>]"
proof -
  let ?p = "posts ! i"
  let ?l = "arr (likedBy ?p)" and ?d = "arr (dislikedBy ?p)"
  let ?p1 = "?p\<lparr>likedBy := Some ?l, dislikedBy := Some (?d @ [uId])\<rparr>"
  let ?p2 = "?p\<lparr>likedBy := Some ?l, dislikedBy := Some ?d\<rparr>"
  have i: "i < length posts" using f findIndex_Some by blast
  have pj: "json_arrays ?p" using js i by (simp add: parsed_posts_def list_all_nth)
  have un: "uId \<noteq> JUndefined" using u by auto
  have w1: "toggleDislike posts postId uId
              = (Reply 200 (Message ''Dislike status updated.''), Some (posts[i := ?p1]))"
    using f nl nd by (simp add: toggleDislike_def Let_def)
  have j1: "json_arrays ?p1"
    using pj un by (simp add: json_arrays_def arr_def json_array_snoc)
  have pp1: "parsed_posts (posts[i := ?p1])"
    using js j1 unfolding parsed_posts_def by (rule list_all_update)
  have c1: "commit True posts (toggleDislike posts postId uId) = posts[i := ?p1]"
    using pp1 by (simp add: w1 commit_def writePosts_def stringify_parse_ident)
  have f1: "findIndex (posts[i := ?p1]) postId = Some i"
    using i f by (simp add: findIndex_update)
  have inc: "js_includes (?d @ [uId]) uId"
    using u by (simp add: js_includes_def plain_id_eq)
  have flt: "filter (\<lambda>x. \<not> strict_eq x uId) (?d @ [uId]) = ?d"
    using nd u by (simp add: filter_not_included plain_id_eq)
  have w2: "toggleDislike (posts[i := ?p1]) postId uId
              = (Reply 200 (Message ''Dislike status updated.''), Some (posts[i := ?p2]))"
    using f1 i nl inc flt by (simp add: toggleDislike_def Let_def arr_def)
  have j2: "json_arrays ?p2"
    using pj by (simp add: json_arrays_def arr_def)
  have pp2: "parsed_posts (posts[i := ?p2])"
    using js j2 unfolding parsed_posts_def by (rule list_all_update)
  have c2: "commit True (posts[i := ?p1]) (toggleDislike (posts[i := ?p1]) postId uId) = posts[i := ?p2]"
    using pp2 by (simp add: w2 commit_def writePosts_def stringify_parse_ident)
  show ?thesis
    unfolding c1 by (rule c2)
qed

section \<open>The claims\<close>

text \<open>
  C1. Mutual exclusion of reactions: no user id is a member of both \<^verbatim>\<open>likedBy\<close> and
  \<^verbatim>\<open>dislikedBy\<close> of a post, and every request keeps it so.  The handlers keep it for
  every \<^verbatim>\<open>userId\<close> that is present (the lemmas of the previous section), but not for a
  request without \<^verbatim>\<open>userId\<close>: starting from an empty file, a post is created, a
  dislike request with an empty body pushes \<^verbatim>\<open>undefined\<close>, which is written as
  \<^verbatim>\<open>null\<close>; a like request with an empty body then finds that \<^verbatim>\<open>[null]\<close> does not
  include \<^verbatim>\<open>undefined\<close>, answers 200 and pushes again.  The file now holds
  \<^verbatim>\<open>null\<close> in both arrays of the post.
\<close>

theorem exclusion_lost_without_userId:
  "all_exclusive file_created \<and> all_exclusive file_disliked
   \<and> fst (toggleDislike file_created ''p1'' JUndefined) = Reply 200 (Message ''Dislike status updated.'')
   \<and> fst (toggleLike file_disliked ''p1'' JUndefined) = Reply 200 (Message ''Like status updated.'')
   \<and> map likedBy file_disliked_liked = [Some [JNull]]
   \<and> map dislikedBy file_disliked_liked = [Some [JNull]]
   \<and> all_exclusive file_disliked_liked = False"
  by (simp add: file_disliked_liked_def file_disliked_def file_created_def commit_def createPost_def
        toggleLike_def toggleDislike_def writePosts_def stringify_parse_def json_post_def json_element_def
        js_includes_def arr_def all_exclusive_def exclusive_def js_or_def Let_def)

text \<open>
  C2. Ownership-gated deletion: \<open>deletePost\<close> removes the posts whose id is the requested
  one and whose \<^verbatim>\<open>userId\<close> is \<^verbatim>\<open>===\<close> the requester's, and keeps every other post in
  place; when no post meets both conditions it answers 403, writes nothing and the file is
  unchanged.  In both cases the file after a request whose write succeeds holds exactly the
  posts that do not meet both conditions, in their order.
\<close>

theorem deletePost_ownership_gated:
  "(list_ex (\<lambda>p. post_id p = postId \<and> strict_eq (userId p) requester) posts \<longrightarrow>
      deletePost posts postId requester =
        (Reply 200 (Message ''Post deleted successfully.''),
         Some (filter (\<lambda>p. \<not> (post_id p = postId \<and> strict_eq (userId p) requester)) posts)))
   \<and> (\<not> list_ex (\<lambda>p. post_id p = postId \<and> strict_eq (userId p) requester) posts \<longrightarrow>
      deletePost posts postId requester =
        (Reply 403 (Message ''Post not found or you are not authorized to delete this post.''), None)
      \<and> commit writable posts (deletePost posts postId requester) = posts)
   \<and> (parsed_posts posts \<longrightarrow>
      commit True posts (deletePost posts postId requester) =
        filter (\<lambda>p. \<not> (post_id p = postId \<and> strict_eq (userId p) requester)) posts)"
proof -
  let ?keep = "\<lambda>p. \<not> (post_id p = postId \<and> strict_eq (userId p) requester)"
  have "parsed_posts (filter ?keep posts)" if "parsed_posts posts"
    using that by (simp add: parsed_posts_def list_all_filter)
  then have w: "stringify_parse (filter ?keep posts) = filter ?keep posts" if "parsed_posts posts"
    using that by (simp add: stringify_parse_ident)
  have u: "filter ?keep posts = posts" if "\<not> list_ex (\<lambda>p. \<not> ?keep p) posts"
    using that by (simp add: filter_unchanged)
  show ?thesis
    using w u by (simp add: deletePost_def Let_def filter_shorter_iff commit_def writePosts_def)
qed

text \<open>The owner of the first of two posts deletes it; the owner of the second may not.\<close>

theorem deletePost_ownership_gated_witness:
  "list_ex (\<lambda>p. post_id p = ''p1'' \<and> strict_eq (userId p) (JStr ''u1'')) [demo_post, other_post]
   \<and> deletePost [demo_post, other_post] ''p1'' (JStr ''u1'')
       = (Reply 200 (Message ''Post deleted successfully.''), Some [other_post])
   \<and> \<not> list_ex (\<lambda>p. post_id p = ''p1'' \<and> strict_eq (userId p) (JStr ''u2'')) [demo_post, other_post]
   \<and> deletePost [demo_post, other_post] ''p1'' (JStr ''u2'')
       = (Reply 403 (Message ''Post not found or you are not authorized to delete this post.''), None)
   \<and> commit True [demo_post, other_post] (deletePost [demo_post, other_post] ''p1'' (JStr ''u2''))
       = [demo_post, other_post]
   \<and> parsed_posts [demo_post, other_post]
   \<and> commit True [demo_post, other_post] (deletePost [demo_post, other_post] ''p1'' (JStr ''u1''))
       = [other_post]"
proof -
  have j: "parsed_posts [demo_post, other_post]"
    by (simp add: parsed_posts_def json_arrays_def json_array_def arr_def demo_post_def other_post_def)
  have m: "list_ex (\<lambda>p. post_id p = ''p1'' \<and> strict_eq (userId p) (JStr ''u1'')) [demo_post, other_post]"
    by (simp add: demo_post_def)
  have n: "\<not> list_ex (\<lambda>p. post_id p = ''p1'' \<and> strict_eq (userId p) (JStr ''u2'')) [demo_post, other_post]"
    by (simp add: demo_post_def other_post_def)
  have f: "filter (\<lambda>p. \<not> (post_id p = ''p1'' \<and> strict_eq (userId p) (JStr ''u1''))) [demo_post, other_post]
             = [other_post]"
    by (simp add: demo_post_def other_post_def)
  show ?thesis
    using m n f j
      deletePost_ownership_gated [where postId = "''p1''" and requester = "JStr ''u1''"
                                   and posts = "[demo_post, other_post]" and writable = True]
      deletePost_ownership_gated [where postId = "''p1''" and requester = "JStr ''u2''"
                                   and posts = "[demo_post, other_post]" and writable = True]
    by auto
qed

text \<open>
  C3. Rejected toggles are atomic: when the \<^verbatim>\<open>userId\<close> of the request is included in
  \<^verbatim>\<open>dislikedBy\<close> of the post found, the like request answers 400 ``Remove your dislike
  first.'', \<^verbatim>\<open>writePosts\<close> is not called and the file is as before; likewise for a
  dislike request when the \<^verbatim>\<open>userId\<close> is included in \<^verbatim>\<open>likedBy\<close>.
\<close>

theorem rejected_toggle_atomic:
  assumes "findIndex posts postId = Some i"
  shows "(js_includes (arr (dislikedBy (posts ! i))) uId \<longrightarrow>
            toggleLike posts postId uId = (Reply 400 (Message ''Remove your dislike first.''), None)
            \<and> commit writable posts (toggleLike posts postId uId) = posts)
       \<and> (js_includes (arr (likedBy (posts ! i))) uId \<longrightarrow>
            toggleDislike posts postId uId = (Reply 400 (Message ''Please remove your like first.''), None)
            \<and> commit writable posts (toggleDislike posts postId uId) = posts)"
  using assms by (simp add: toggleLike_def toggleDislike_def Let_def commit_def)

text \<open>User \<open>u2\<close> has disliked one post and liked another, and asks for the opposite.\<close>

theorem rejected_toggle_atomic_witness:
  "findIndex [disliked_post] ''p1'' = Some 0
   \<and> js_includes (arr (dislikedBy ([disliked_post] ! 0))) (JStr ''u2'')
   \<and> toggleLike [disliked_post] ''p1'' (JStr ''u2'')
       = (Reply 400 (Message ''Remove your dislike first.''), None)
   \<and> commit True [disliked_post] (toggleLike [disliked_post] ''p1'' (JStr ''u2'')) = [disliked_post]
   \<and> findIndex [liked_post] ''p1'' = Some 0
   \<and> js_includes (arr (likedBy ([liked_post] ! 0))) (JStr ''u2'')
   \<and> toggleDislike [liked_post] ''p1'' (JStr ''u2'')
       = (Reply 400 (Message ''Please remove your like first.''), None)
   \<and> commit True [liked_post] (toggleDislike [liked_post] ''p1'' (JStr ''u2'')) = [liked_post]"
proof -
  have a: "findIndex [disliked_post] ''p1'' = Some 0"
    by (simp add: disliked_post_def demo_post_def)
  have b: "js_includes (arr (dislikedBy ([disliked_post] ! 0))) (JStr ''u2'')"
    by (simp add: disliked_post_def js_includes_def arr_def)
  have c: "findIndex [liked_post] ''p1'' = Some 0"
    by (simp add: liked_post_def demo_post_def)
  have d: "js_includes (arr (likedBy ([liked_post] ! 0))) (JStr ''u2'')"
    by (simp add: liked_post_def js_includes_def arr_def)
  show ?thesis
    using a b c d
      rejected_toggle_atomic [OF a, where uId = "JStr ''u2''" and writable = True]
      rejected_toggle_atomic [OF c, where uId = "JStr ''u2''" and writable = True]
    by auto
qed

text \<open>
  C4. Toggle idempotence: from the neutral state, two like requests (or two dislike requests)
  for the same post and \<^verbatim>\<open>userId\<close> leave \<^verbatim>\<open>likedBy\<close> and \<^verbatim>\<open>dislikedBy\<close> as they
  were.  This holds when the \<^verbatim>\<open>userId\<close> is null, a boolean, a number or a string
  (\<open>toggleLike_twice_plain_id\<close>, \<open>toggleDislike_twice_plain_id\<close>).  For a request without
  \<^verbatim>\<open>userId\<close> it does not: each of the two requests answers 200 and appends, since the
  \<^verbatim>\<open>null\<close> written for the first \<^verbatim>\<open>undefined\<close> is not found by
  \<^verbatim>\<open>includes(undefined)\<close>, and the post ends with two entries where it had none.
\<close>

theorem toggle_twice_without_userId:
  "js_includes (arr (likedBy (file_created ! 0))) JUndefined = False
   \<and> js_includes (arr (dislikedBy (file_created ! 0))) JUndefined = False
   \<and> fst (toggleLike file_created ''p1'' JUndefined) = Reply 200 (Message ''Like status updated.'')
   \<and> fst (toggleLike file_liked ''p1'' JUndefined) = Reply 200 (Message ''Like status updated.'')
   \<and> map likedBy file_created = [Some []]
   \<and> map likedBy file_liked_twice = [Some [JNull, JNull]]
   \<and> fst (toggleDislike file_created ''p1'' JUndefined) = Reply 200 (Message ''Dislike status updated.'')
   \<and> fst (toggleDislike file_disliked ''p1'' JUndefined) = Reply 200 (Message ''Dislike status updated.'')
   \<and> map dislikedBy file_created = [Some []]
   \<and> map dislikedBy file_disliked_twice = [Some [JNull, JNull]]"
  by (simp add: file_liked_twice_def file_liked_def file_disliked_twice_def file_disliked_def
        file_created_def commit_def createPost_def
        toggleLike_def toggleDislike_def writePosts_def stringify_parse_def json_post_def json_element_def
        js_includes_def arr_def js_or_def Let_def)

text \<open>
  C5. Register then authenticate: for a user name and a password that are strings and not
  empty after trimming, and a user collection without that name, signup answers 201 with the
  new id and appends the user; login on the collection signup wrote answers 200 with the
  same id.  The hash service is assumed to return a hash and to accept the password against
  that hash.
\<close>

theorem register_then_authenticate:
  assumes "trim name \<noteq> []" and "trim pw \<noteq> []"
    and "\<not> list_ex (\<lambda>user. user_name user = name) users"
    and "bcrypt_hash pw = Some h"
    and "bcrypt_compare pw h = Some True"
  shows "signup bcrypt_hash uuid users (JStr name) (JStr pw) =
           (Reply 201 (UserBody uuid name ''User registered successfully!''),
            Some (users @ [\<lparr>user_id = uuid, user_name = name, passwordHash = h\<rparr>]))
       \<and> login bcrypt_compare (users @ [\<lparr>user_id = uuid, user_name = name, passwordHash = h\<rparr>])
             (JStr name) (JStr pw) =
           Reply 200 (UserBody uuid name ''Logged in successfully!'')"
proof -
  let ?newUser = "\<lparr>user_id = uuid, user_name = name, passwordHash = h\<rparr>"
  have c: "credentials (JStr name) (JStr pw) = Inr (name, pw)"
    using assms(1,2) by (rule credentials_strings)
  have f: "find (\<lambda>u. user_name u = name) (users @ [?newUser]) = Some ?newUser"
    using assms(3) by (simp add: find_appended)
  show ?thesis
    using assms(3,4,5) by (simp add: signup_def login_def c f)
qed

text \<open>Alice registers next to Bob and logs in.\<close>

theorem register_then_authenticate_witness:
  "trim ''alice'' \<noteq> [] \<and> trim ''pw1'' \<noteq> []
   \<and> \<not> list_ex (\<lambda>user. user_name user = ''alice'') [other_user]
   \<and> demo_hash ''pw1'' = Some ''hash:pw1''
   \<and> demo_compare ''pw1'' ''hash:pw1'' = Some True
   \<and> signup demo_hash ''id-1'' [other_user] (JStr ''alice'') (JStr ''pw1'') =
        (Reply 201 (UserBody ''id-1'' ''alice'' ''User registered successfully!''),
         Some [other_user, demo_user])
   \<and> login demo_compare [other_user, demo_user] (JStr ''alice'') (JStr ''pw1'') =
        Reply 200 (UserBody ''id-1'' ''alice'' ''Logged in successfully!'')"
proof -
  have a: "trim ''alice'' \<noteq> []" by (simp add: trim_def white_space_def)
  have b: "trim ''pw1'' \<noteq> []" by (simp add: trim_def white_space_def)
  have c: "\<not> list_ex (\<lambda>user. user_name user = ''alice'') [other_user]"
    by (simp add: other_user_def)
  have d: "demo_hash ''pw1'' = Some ''hash:pw1''" by (simp add: demo_hash_def)
  have e: "demo_compare ''pw1'' ''hash:pw1'' = Some True" by (simp add: demo_compare_def)
  show ?thesis
    using a b c d e register_then_authenticate [where bcrypt_hash = demo_hash and bcrypt_compare = demo_compare
          and name = "''alice''" and pw = "''pw1''" and h = "''hash:pw1''" and users = "[other_user]"
          and uuid = "''id-1''"]
    by (simp add: demo_user_def)
qed

text \<open>
  C6. Contract of \<open>createPost\<close>: it answers 400 exactly when \<^verbatim>\<open>userId\<close> is missing, or
  \<^verbatim>\<open>username\<close> is missing, or \<^verbatim>\<open>content\<close>, \<^verbatim>\<open>image\<close> and \<^verbatim>\<open>video\<close> are all
  missing, where missing is what \<^verbatim>\<open>!v\<close> tests: absent, null, false, 0 or the empty
  string.  It then writes nothing.  Otherwise it appends a post that carries the id from
  \<^verbatim>\<open>uuidv4()\<close>, the time of the request and three empty arrays, passes the collection to
  \<^verbatim>\<open>writePosts\<close> and answers 201 with that post; once written, the file holds the
  former posts followed by the new one.
\<close>

theorem createPost_contract:
  "((fst (createPost uuid now posts uId uname ctent img vid)
        = Reply 400 (Message ''Missing required post data or user not authenticated.''))
      = (falsy uId \<or> falsy uname \<or> (falsy ctent \<and> falsy img \<and> falsy vid)))
   \<and> ((falsy uId \<or> falsy uname \<or> (falsy ctent \<and> falsy img \<and> falsy vid)) \<longrightarrow>
        snd (createPost uuid now posts uId uname ctent img vid) = None)
   \<and> (\<not> (falsy uId \<or> falsy uname \<or> (falsy ctent \<and> falsy img \<and> falsy vid)) \<longrightarrow>
        (\<exists>newPost.
           createPost uuid now posts uId uname ctent img vid
             = (Reply 201 (PostBody newPost), Some (posts @ [newPost]))
           \<and> post_id newPost = uuid \<and> timestamp newPost = now
           \<and> userId newPost = uId \<and> username newPost = uname
           \<and> content newPost = js_or ctent (JStr []) \<and> image newPost = js_or img JNull
           \<and> video newPost = js_or vid JNull
           \<and> likedBy newPost = Some [] \<and> dislikedBy newPost = Some [] \<and> comments newPost = Some []
           \<and> (parsed_posts posts \<longrightarrow>
                commit True posts (createPost uuid now posts uId uname ctent img vid)
                  = posts @ [newPost])))"
proof -
  let ?newPost = "\<lparr>post_id = uuid, userId = uId, username = uname,
                   content = js_or ctent (JStr []), image = js_or img JNull,
                   video = js_or vid JNull, timestamp = now,
                   likedBy = Some [], dislikedBy = Some [], comments = Some []\<rparr>"
  have "parsed_posts (posts @ [?newPost])" if "parsed_posts posts"
    using that by (simp add: parsed_posts_def json_arrays_def json_array_def arr_def)
  then have w: "stringify_parse (posts @ [?newPost]) = posts @ [?newPost]" if "parsed_posts posts"
    using that by (simp add: stringify_parse_ident)
  show ?thesis
    using w by (simp add: createPost_def Let_def commit_def writePosts_def)
qed

text \<open>A request without \<^verbatim>\<open>userId\<close> is refused; a complete one creates the sample post.\<close>

theorem createPost_contract_witness:
  "falsy JUndefined
   \<and> fst (createPost ''p2'' ''12:00'' [demo_post] JUndefined (JStr ''bob'') (JStr ''yo'') JUndefined JUndefined)
       = Reply 400 (Message ''Missing required post data or user not authenticated.'')
   \<and> snd (createPost ''p2'' ''12:00'' [demo_post] JUndefined (JStr ''bob'') (JStr ''yo'') JUndefined JUndefined)
       = None
   \<and> \<not> (falsy (JStr ''u2'') \<or> falsy (JStr ''bob'')
          \<or> (falsy (JStr ''yo'') \<and> falsy JUndefined \<and> falsy JUndefined))
   \<and> (\<exists>newPost.
         createPost ''p2'' ''12:00'' [demo_post] (JStr ''u2'') (JStr ''bob'') (JStr ''yo'') JUndefined JUndefined
           = (Reply 201 (PostBody newPost), Some ([demo_post] @ [newPost]))
         \<and> post_id newPost = ''p2'' \<and> timestamp newPost = ''12:00''
         \<and> likedBy newPost = Some [] \<and> dislikedBy newPost = Some [] \<and> comments newPost = Some []
         \<and> parsed_posts [demo_post]
         \<and> commit True [demo_post]
               (createPost ''p2'' ''12:00'' [demo_post] (JStr ''u2'') (JStr ''bob'') (JStr ''yo'')
                  JUndefined JUndefined)
             = [demo_post] @ [newPost])"
  using createPost_contract [where uuid = "''p2''" and now = "''12:00''" and posts = "[demo_post]"
                              and uId = JUndefined and uname = "JStr ''bob''" and ctent = "JStr ''yo''"
                              and img = JUndefined and vid = JUndefined]
        createPost_contract [where uuid = "''p2''" and now = "''12:00''" and posts = "[demo_post]"
                              and uId = "JStr ''u2''" and uname = "JStr ''bob''" and ctent = "JStr ''yo''"
                              and img = JUndefined and vid = JUndefined]
  by (auto simp: parsed_posts_def json_arrays_def json_array_def arr_def demo_post_def)

text \<open>
  C7. Contract of \<open>clear_mine\<close>: it removes every post whose \<^verbatim>\<open>userId\<close> is \<^verbatim>\<open>===\<close>
  the given one and no other post, the remaining posts keeping their order; when no post
  matches it answers 404, writes nothing and the file is unchanged.  In both cases the file
  after a request whose write succeeds holds exactly the posts of other users, in their
  order.
\<close>

theorem clear_mine_contract:
  "(list_ex (\<lambda>p. strict_eq (userId p) uId) posts \<longrightarrow>
      clear_mine posts uId =
        (Reply 200 (Message ''Your posts cleared successfully.''),
         Some (filter (\<lambda>p. \<not> strict_eq (userId p) uId) posts)))
   \<and> (\<not> list_ex (\<lambda>p. strict_eq (userId p) uId) posts \<longrightarrow>
      clear_mine posts uId = (Reply 404 (Message ''No posts found for this user.''), None)
      \<and> commit writable posts (clear_mine posts uId) = posts)
   \<and> (parsed_posts posts \<longrightarrow>
      commit True posts (clear_mine posts uId) = filter (\<lambda>p. \<not> strict_eq (userId p) uId) posts)"
proof -
  let ?keep = "\<lambda>p. \<not> strict_eq (userId p) uId"
  have "parsed_posts (filter ?keep posts)" if "parsed_posts posts"
    using that by (simp add: parsed_posts_def list_all_filter)
  then have w: "stringify_parse (filter ?keep posts) = filter ?keep posts" if "parsed_posts posts"
    using that by (simp add: stringify_parse_ident)
  have u: "filter ?keep posts = posts" if "\<not> list_ex (\<lambda>p. \<not> ?keep p) posts"
    using that by (simp add: filter_unchanged)
  show ?thesis
    using w u by (simp add: clear_mine_def Let_def filter_shorter_iff commit_def writePosts_def)
qed

text \<open>User \<open>u1\<close> owns the first and the third of three posts; user \<open>u3\<close> owns none.\<close>

theorem clear_mine_contract_witness:
  "list_ex (\<lambda>p. strict_eq (userId p) (JStr ''u1'')) [demo_post, other_post, liked_post]
   \<and> clear_mine [demo_post, other_post, liked_post] (JStr ''u1'')
       = (Reply 200 (Message ''Your posts cleared successfully.''), Some [other_post])
   \<and> \<not> list_ex (\<lambda>p. strict_eq (userId p) (JStr ''u3'')) [demo_post, other_post, liked_post]
   \<and> clear_mine [demo_post, other_post, liked_post] (JStr ''u3'')
       = (Reply 404 (Message ''No posts found for this user.''), None)
   \<and> commit True [demo_post, other_post, liked_post] (clear_mine [demo_post, other_post, liked_post] (JStr ''u3''))
       = [demo_post, other_post, liked_post]
   \<and> parsed_posts [demo_post, other_post, liked_post]
   \<and> commit True [demo_post, other_post, liked_post] (clear_mine [demo_post, other_post, liked_post] (JStr ''u1''))
       = [other_post]"
proof -
  have j: "parsed_posts [demo_post, other_post, liked_post]"
    by (simp add: parsed_posts_def json_arrays_def json_array_def arr_def
          demo_post_def other_post_def liked_post_def)
  have m: "list_ex (\<lambda>p. strict_eq (userId p) (JStr ''u1'')) [demo_post, other_post, liked_post]"
    by (simp add: demo_post_def)
  have n: "\<not> list_ex (\<lambda>p. strict_eq (userId p) (JStr ''u3'')) [demo_post, other_post, liked_post]"
    by (simp add: demo_post_def other_post_def liked_post_def)
  have f: "filter (\<lambda>p. \<not> strict_eq (userId p) (JStr ''u1'')) [demo_post, other_post, liked_post]
             = [other_post]"
    by (simp add: demo_post_def other_post_def liked_post_def)
  show ?thesis
    using m n f j
      clear_mine_contract [where uId = "JStr ''u1''" and posts = "[demo_post, other_post, liked_post]"
                           and writable = True]
      clear_mine_contract [where uId = "JStr ''u3''" and posts = "[demo_post, other_post, liked_post]"
                           and writable = True]
    by auto
qed

text \<open>
  C8. Load is fail-open.  As stated, the claim says that \<open>readPosts\<close> returns a sequence
  for every state of the file.  It does not when the file holds JSON that is not an array:
  \<^verbatim>\<open>JSON.parse\<close> succeeds and its result is returned as it is.
\<close>

theorem load_returns_non_array:
  "is_sequence (readPosts (Parsed (NonSeq (JObject ''{}'')))) = False"
  by (simp add: readPosts_def)

text \<open>
  C8, amended.  \<open>readPosts\<close> and \<open>readUsers\<close> always return a value and never a failure:
  the empty sequence when the file does not exist, cannot be read or cannot be parsed, and
  otherwise the parsed document as it is, which is a sequence unless the file holds JSON
  that is not an array.
\<close>

theorem load_fail_open:
  "((res = NoEntry \<or> res = ReadError \<or> res = Unparsable) \<longrightarrow> readPosts res = Seq [])
   \<and> (res = Parsed d \<longrightarrow> readPosts res = d)
   \<and> is_sequence (readPosts res) = (holds_non_array res = False)
   \<and> ((ures = NoEntry \<or> ures = ReadError \<or> ures = Unparsable) \<longrightarrow> readUsers ures = Seq [])
   \<and> (ures = Parsed ud \<longrightarrow> readUsers ures = ud)
   \<and> is_sequence (readUsers ures) = (holds_non_array ures = False)"
proof -
  have p: "is_sequence (readPosts res) = (holds_non_array res = False)"
    by (cases res rule: holds_non_array.cases) (simp_all add: readPosts_def)
  have u: "is_sequence (readUsers ures) = (holds_non_array ures = False)"
    by (cases ures rule: holds_non_array.cases) (simp_all add: readUsers_def)
  show ?thesis
    using p u by (auto simp: readPosts_def readUsers_def)
qed

text \<open>Each state of the file that fails, and a file that holds an array.\<close>

theorem load_fail_open_witness:
  "readPosts NoEntry = Seq [] \<and> readPosts ReadError = Seq [] \<and> readPosts Unparsable = Seq []
   \<and> readPosts (Parsed (Seq [demo_post])) = Seq [demo_post]
   \<and> is_sequence (readPosts (Parsed (Seq [demo_post])))
   \<and> readUsers NoEntry = Seq [] \<and> readUsers ReadError = Seq [] \<and> readUsers Unparsable = Seq []
   \<and> readUsers (Parsed (Seq [demo_user])) = Seq [demo_user]
   \<and> is_sequence (readUsers (Parsed (Seq [demo_user])))"
  using load_fail_open [where res = NoEntry and ures = NoEntry]
        load_fail_open [where res = ReadError and ures = ReadError]
        load_fail_open [where res = Unparsable and ures = Unparsable]
        load_fail_open [where res = "Parsed (Seq [demo_post])" and d = "Seq [demo_post]"
                         and ures = "Parsed (Seq [demo_user])" and ud = "Seq [demo_user]"]
  by simp

text \<open>
  C9. Authentication failure is undifferentiated: a login with a user name that is not in
  the collection and a login with a name that is there but a password that
  \<^verbatim>\<open>bcrypt.compare\<close> rejects get the same reply, status 401 with the message ``Invalid
  username or password.''
\<close>

theorem login_failures_indistinguishable:
  assumes "trim nameA \<noteq> []" and "trim pwA \<noteq> []" and "trim nameB \<noteq> []" and "trim pwB \<noteq> []"
    and "find (\<lambda>u. user_name u = nameA) users = None"
    and "find (\<lambda>u. user_name u = nameB) users = Some usr"
    and "bcrypt_compare pwB (passwordHash usr) = Some False"
  shows "login bcrypt_compare users (JStr nameA) (JStr pwA)
           = Reply 401 (Message ''Invalid username or password.'')
       \<and> login bcrypt_compare users (JStr nameB) (JStr pwB)
           = Reply 401 (Message ''Invalid username or password.'')"
  using assms by (simp add: login_def credentials_strings)

text \<open>Carol is unknown; Alice is known and the password is wrong.\<close>

theorem login_failures_indistinguishable_witness:
  "trim ''carol'' \<noteq> [] \<and> trim ''pw1'' \<noteq> [] \<and> trim ''alice'' \<noteq> [] \<and> trim ''guess'' \<noteq> []
   \<and> find (\<lambda>u. user_name u = ''carol'') [other_user, demo_user] = None
   \<and> find (\<lambda>u. user_name u = ''alice'') [other_user, demo_user] = Some demo_user
   \<and> demo_compare ''guess'' (passwordHash demo_user) = Some False
   \<and> login demo_compare [other_user, demo_user] (JStr ''carol'') (JStr ''pw1'')
       = Reply 401 (Message ''Invalid username or password.'')
   \<and> login demo_compare [other_user, demo_user] (JStr ''alice'') (JStr ''guess'')
       = Reply 401 (Message ''Invalid username or password.'')"
proof -
  have a: "trim ''carol'' \<noteq> []" by (simp add: trim_def white_space_def)
  have b: "trim ''pw1'' \<noteq> []" by (simp add: trim_def white_space_def)
  have c: "trim ''alice'' \<noteq> []" by (simp add: trim_def white_space_def)
  have d: "trim ''guess'' \<noteq> []" by (simp add: trim_def white_space_def)
  have e: "find (\<lambda>u. user_name u = ''carol'') [other_user, demo_user] = None"
    by (simp add: other_user_def demo_user_def)
  have f: "find (\<lambda>u. user_name u = ''alice'') [other_user, demo_user] = Some demo_user"
    by (simp add: other_user_def demo_user_def)
  have g: "demo_compare ''guess'' (passwordHash demo_user) = Some False"
    by (simp add: demo_compare_def demo_user_def)
  show ?thesis
    using a b c d e f g login_failures_indistinguishable [where bcrypt_compare = demo_compare
          and nameA = "''carol''" and pwA = "''pw1''" and nameB = "''alice''" and pwB = "''guess''"
          and users = "[other_user, demo_user]" and usr = demo_user]
    by simp
qed

text \<open>
  C10. Toggles never validate the user: for every post of the collection that is the first
  with its id (every post, when the ids are all different) and any \<^verbatim>\<open>userId\<close> value,
  also an absent one, that \<^verbatim>\<open>includes\<close> finds in neither array of that post, the like
  request for that id answers 200 and passes to \<^verbatim>\<open>writePosts\<close> the collection in which
  exactly that value is appended to \<^verbatim>\<open>likedBy\<close> of that post and no other post is
  changed; the dislike request does the same with \<^verbatim>\<open>dislikedBy\<close>.  Neither handler takes
  the user collection, and neither answers 400 for a missing \<^verbatim>\<open>userId\<close>.  Once written,
  the file holds the value as JSON writes it: the value itself, and \<^verbatim>\<open>null\<close> for an
  absent \<^verbatim>\<open>userId\<close>.
\<close>

theorem toggles_accept_any_userId:
  assumes "i < length posts"
    and "post_id (posts ! i) = postId"
    and "\<forall>j<i. post_id (posts ! j) \<noteq> postId"
    and "\<not> js_includes (arr (likedBy (posts ! i))) uId"
    and "\<not> js_includes (arr (dislikedBy (posts ! i))) uId"
  shows "toggleLike posts postId uId =
           (Reply 200 (Message ''Like status updated.''),
            Some (posts[i := (posts ! i)\<lparr>likedBy := Some (arr (likedBy (posts ! i)) @ [uId]),
                                       dislikedBy := Some (arr (dislikedBy (posts ! i)))\<rparr>]))
       \<and> toggleDislike posts postId uId =
           (Reply 200 (Message ''Dislike status updated.''),
            Some (posts[i := (posts ! i)\<lparr>likedBy := Some (arr (likedBy (posts ! i))),
                                       dislikedBy := Some (arr (dislikedBy (posts ! i)) @ [uId])\<rparr>]))
       \<and> (parsed_posts posts \<longrightarrow>
            commit True posts (toggleLike posts postId uId) =
              posts[i := (posts ! i)\<lparr>likedBy := Some (arr (likedBy (posts ! i)) @ [json_element uId]),
                                      dislikedBy := Some (arr (dislikedBy (posts ! i)))\<rparr>]
            \<and> commit True posts (toggleDislike posts postId uId) =
              posts[i := (posts ! i)\<lparr>likedBy := Some (arr (likedBy (posts ! i))),
                                      dislikedBy := Some (arr (dislikedBy (posts ! i)) @ [json_element uId])\<rparr>])"
proof -
  let ?p = "posts ! i"
  let ?l = "arr (likedBy ?p)" and ?d = "arr (dislikedBy ?p)"
  have f: "findIndex posts postId = Some i"
    using assms(1,2,3) by (rule findIndex_first)
  have like: "toggleLike posts postId uId =
                (Reply 200 (Message ''Like status updated.''),
                 Some (posts[i := ?p\<lparr>likedBy := Some (?l @ [uId]), dislikedBy := Some ?d\<rparr>]))"
    using f assms(4,5) by (simp add: toggleLike_def Let_def)
  have dislike: "toggleDislike posts postId uId =
                   (Reply 200 (Message ''Dislike status updated.''),
                    Some (posts[i := ?p\<lparr>likedBy := Some ?l, dislikedBy := Some (?d @ [uId])\<rparr>]))"
    using f assms(4,5) by (simp add: toggleDislike_def Let_def)
  have stored: "stringify_parse (posts[i := ?p\<lparr>likedBy := Some (?l @ [uId]), dislikedBy := Some ?d\<rparr>])
                  = posts[i := ?p\<lparr>likedBy := Some (?l @ [json_element uId]), dislikedBy := Some ?d\<rparr>]
              \<and> stringify_parse (posts[i := ?p\<lparr>likedBy := Some ?l, dislikedBy := Some (?d @ [uId])\<rparr>])
                  = posts[i := ?p\<lparr>likedBy := Some ?l, dislikedBy := Some (?d @ [json_element uId])\<rparr>]"
    if js: "parsed_posts posts"
  proof -
    have pj: "json_arrays ?p"
      using js assms(1) by (simp add: parsed_posts_def list_all_nth)
    then have l: "map json_element ?l = ?l" and d: "map json_element ?d = ?d"
      by (simp_all add: json_arrays_def json_element_map)
    have all: "map json_post posts = posts"
      using js by (simp add: stringify_parse_ident [unfolded stringify_parse_def])
    show ?thesis
      by (simp add: stringify_parse_def map_update all json_post_def l d)
  qed
  show ?thesis
    using stored by (simp add: like dislike commit_def writePosts_def)
qed

text \<open>
  A request without \<^verbatim>\<open>userId\<close> for the second of two posts: the first post is left as it
  is, the second gains the absent value in the array passed on and \<^verbatim>\<open>null\<close> in the file.
\<close>

theorem toggles_accept_any_userId_witness:
  "(1::nat) < length [other_post, demo_post]
   \<and> post_id ([other_post, demo_post] ! 1) = ''p1''
   \<and> post_id ([other_post, demo_post] ! 0) \<noteq> ''p1''
   \<and> \<not> js_includes (arr (likedBy ([other_post, demo_post] ! 1))) JUndefined
   \<and> \<not> js_includes (arr (dislikedBy ([other_post, demo_post] ! 1))) JUndefined
   \<and> parsed_posts [other_post, demo_post]
   \<and> toggleLike [other_post, demo_post] ''p1'' JUndefined =
       (Reply 200 (Message ''Like status updated.''),
        Some [other_post, demo_post\<lparr>likedBy := Some [JUndefined]\<rparr>])
   \<and> toggleDislike [other_post, demo_post] ''p1'' JUndefined =
       (Reply 200 (Message ''Dislike status updated.''),
        Some [other_post, demo_post\<lparr>dislikedBy := Some [JUndefined]\<rparr>])
   \<and> commit True [other_post, demo_post] (toggleLike [other_post, demo_post] ''p1'' JUndefined)
       = [other_post, demo_post\<lparr>likedBy := Some [JNull]\<rparr>]
   \<and> commit True [other_post, demo_post] (toggleDislike [other_post, demo_post] ''p1'' JUndefined)
       = [other_post, demo_post\<lparr>dislikedBy := Some [JNull]\<rparr>]"
proof -
  let ?posts = "[other_post, demo_post]"
  have a: "(1::nat) < length ?posts" by simp
  have b: "post_id (?posts ! 1) = ''p1''" by (simp add: demo_post_def)
  have c: "\<forall>j<1. post_id (?posts ! j) \<noteq> ''p1''"
    by (simp add: other_post_def demo_post_def)
  have d: "\<not> js_includes (arr (likedBy (?posts ! 1))) JUndefined"
    by (simp add: demo_post_def js_includes_def arr_def)
  have e: "\<not> js_includes (arr (dislikedBy (?posts ! 1))) JUndefined"
    by (simp add: demo_post_def js_includes_def arr_def)
  have j: "parsed_posts ?posts"
    by (simp add: parsed_posts_def json_arrays_def json_array_def arr_def demo_post_def other_post_def)
  have r: "demo_post\<lparr>likedBy := Some [JUndefined], dislikedBy := Some []\<rparr>
             = demo_post\<lparr>likedBy := Some [JUndefined]\<rparr>"
          "demo_post\<lparr>likedBy := Some [], dislikedBy := Some [JUndefined]\<rparr>
             = demo_post\<lparr>dislikedBy := Some [JUndefined]\<rparr>"
          "demo_post\<lparr>likedBy := Some [JNull], dislikedBy := Some []\<rparr>
             = demo_post\<lparr>likedBy := Some [JNull]\<rparr>"
          "demo_post\<lparr>likedBy := Some [], dislikedBy := Some [JNull]\<rparr>
             = demo_post\<lparr>dislikedBy := Some [JNull]\<rparr>"
          "arr (likedBy demo_post) = []" "arr (dislikedBy demo_post) = []"
    by (simp_all add: demo_post_def arr_def)
  have n: "json_element JUndefined = JNull" by (simp add: json_element_def)
  have z: "post_id (?posts ! 0) \<noteq> ''p1''" by (simp add: other_post_def demo_post_def)
  show ?thesis
    using a b z d e j toggles_accept_any_userId [OF a b c d e]
    by (auto simp: r n)
qed

end
